theory Spec2Isabelle
  imports Complex_Main
begin

section \<open>Python values, exceptions and results\<close>

text \<open>
  The module \<^verbatim>\<open>poretools/Fast5File.py\<close> is Python 3 (f-strings, \<^verbatim>\<open>__next__\<close>).
  Every \<^verbatim>\<open>raise\<close> of the source is a value: \<open>Exception e\<close> for the subclasses of
  Python's \<^verbatim>\<open>Exception\<close>, which \<^verbatim>\<open>except Exception\<close> catches, and \<open>SystemExit msg\<close> for
  \<^verbatim>\<open>sys.exit(msg)\<close>, which it does not catch.
\<close>

datatype py_exception =
    KeyError | TypeError | AttributeError | ValueError | IndexError
  | ZeroDivisionError | StopIteration | FileNotFoundError | OSError

datatype py_raise = Exception py_exception | SystemExit string

type_synonym 'a result = "py_raise + 'a"

definition rbind :: "'e + 'a \<Rightarrow> ('a \<Rightarrow> 'e + 'b) \<Rightarrow> 'e + 'b" where
  "rbind m f = (case m of Inl e \<Rightarrow> Inl e | Inr x \<Rightarrow> f x)"

definition raise_exc :: "py_exception + 'a \<Rightarrow> 'a result" where
  "raise_exc m = (case m of Inl e \<Rightarrow> Inl (Exception e) | Inr x \<Rightarrow> Inr x)"

text \<open>
  Attribute values as h5py hands them over: integers, floats and text. A float is
  represented by the real number it stands for (rounding is not modelled).
\<close>

datatype pyval = PInt int | PFloat real | PStr string

subsection \<open>Decimal text\<close>

fun digits10 :: "nat \<Rightarrow> string" where
  "digits10 n =
     (if n < 10 then [''0123456789'' ! n]
      else digits10 (n div 10) @ [''0123456789'' ! (n mod 10)])"

declare digits10.simps [simp del]

definition zfill :: "nat \<Rightarrow> string \<Rightarrow> string" where
  "zfill w s = replicate (w - length s) (CHR ''0'') @ s"

text \<open>The conversion \<^verbatim>\<open>%03d\<close> / \<^verbatim>\<open>{:03d}\<close>: width 3 counts the sign.\<close>

definition pad03d :: "int \<Rightarrow> string" where
  "pad03d n =
     (if n < 0 then CHR ''-'' # zfill 2 (digits10 (nat (- n)))
      else zfill 3 (digits10 (nat n)))"

text \<open>
  \<^verbatim>\<open>fmt % args\<close> for the format strings of this module, whose only conversion is
  \<^verbatim>\<open>%03d\<close>. As in Python, a conversion with no argument left and an argument with no
  conversion left are both \<^verbatim>\<open>TypeError\<close> (\<^verbatim>\<open>not all arguments converted during
  string formatting\<close>). Any other \<^verbatim>\<open>%\<close> conversion is outside this model (\<open>ValueError\<close>).
\<close>

fun percent_format :: "string \<Rightarrow> int list \<Rightarrow> py_exception + string" where
  "percent_format [] args = (if args = [] then Inr [] else Inl TypeError)"
| "percent_format (c # cs) args =
     (if c = CHR ''%'' then
        (if take 3 cs = ''03d'' then
           (case args of
              [] \<Rightarrow> Inl TypeError
            | a # as \<Rightarrow> rbind (percent_format (drop 3 cs) as) (\<lambda>r. Inr (pad03d a @ r)))
         else Inl ValueError)
      else rbind (percent_format cs args) (\<lambda>r. Inr (c # r)))"

text \<open>
  \<^verbatim>\<open>fmt.format(*args)\<close> for the templates of this module, whose only replacement field
  is \<^verbatim>\<open>{:03d}\<close> (automatic numbering). Unused arguments are not an error for
  \<^verbatim>\<open>str.format\<close>; a field with no argument left is \<^verbatim>\<open>IndexError\<close>. Any other brace is
  outside this model (\<open>ValueError\<close>).
\<close>

fun str_format :: "string \<Rightarrow> int list \<Rightarrow> py_exception + string" where
  "str_format [] args = Inr []"
| "str_format (c # cs) args =
     (if c = CHR ''{'' then
        (if take 5 cs = '':03d}'' then
           (case args of
              [] \<Rightarrow> Inl IndexError
            | a # as \<Rightarrow> rbind (str_format (drop 5 cs) as) (\<lambda>r. Inr (pad03d a @ r)))
         else Inl ValueError)
      else if c = CHR ''}'' then Inl ValueError
      else rbind (str_format cs args) (\<lambda>r. Inr (c # r)))"

text \<open>\<^verbatim>\<open>d[k]\<close> on a dict raises \<^verbatim>\<open>KeyError\<close> for a missing key.\<close>

definition dict_getitem :: "('k \<times> 'v) list \<Rightarrow> 'k \<Rightarrow> py_exception + 'v" where
  "dict_getitem d k = (case map_of d k of None \<Rightarrow> Inl KeyError | Some v \<Rightarrow> Inr v)"

section \<open>The HDF5 container\<close>

text \<open>
  A container is a tree of named objects: groups (attributes and named children),
  datasets (attributes and a payload) and committed datatypes. A dataset's payload is
  either text or an array of rows.
\<close>

datatype h5data = DString string | DArray "pyval list list"

datatype h5node =
    H5Group "(string \<times> pyval) list" "(string \<times> h5node) list"
  | H5Dataset "(string \<times> pyval) list" h5data
  | H5Datatype "(string \<times> pyval) list"

fun attrs :: "h5node \<Rightarrow> (string \<times> pyval) list" where
  "attrs (H5Group a ch) = a"
| "attrs (H5Dataset a d) = a"
| "attrs (H5Datatype a) = a"

text \<open>A path is split at \<^verbatim>\<open>/\<close>; empty components (leading, trailing, doubled) vanish.\<close>

fun split_path :: "string \<Rightarrow> string \<Rightarrow> string list" where
  "split_path cur [] = (if cur = [] then [] else [cur])"
| "split_path cur (c # cs) =
     (if c = CHR ''/'' then (if cur = [] then split_path [] cs else cur # split_path [] cs)
      else split_path (cur @ [c]) cs)"

fun walk :: "h5node \<Rightarrow> string list \<Rightarrow> py_exception + h5node" where
  "walk n [] = Inr n"
| "walk (H5Group a ch) (c # cs) =
     (case map_of ch c of None \<Rightarrow> Inl KeyError | Some n \<Rightarrow> walk n cs)"
| "walk (H5Dataset a d) (c # cs) = Inl KeyError"
| "walk (H5Datatype a) (c # cs) = Inl KeyError"

text \<open>\<^verbatim>\<open>group[path]\<close>: \<^verbatim>\<open>KeyError\<close> when the path names nothing.\<close>

definition h5_getitem :: "h5node \<Rightarrow> string \<Rightarrow> py_exception + h5node" where
  "h5_getitem n path = walk n (split_path [] path)"

text \<open>\<^verbatim>\<open>group.get(path)\<close>: \<^verbatim>\<open>None\<close> where \<^verbatim>\<open>group[path]\<close> raises \<^verbatim>\<open>KeyError\<close>.\<close>

definition h5_get :: "h5node \<Rightarrow> string \<Rightarrow> py_exception + h5node option" where
  "h5_get n path =
     (case h5_getitem n path of
        Inr x \<Rightarrow> Inr (Some x)
      | Inl e \<Rightarrow> if e = KeyError then Inr None else Inl e)"

definition h5_exists :: "h5node \<Rightarrow> string \<Rightarrow> bool" where
  "h5_exists n path = (case h5_getitem n path of Inl e \<Rightarrow> False | Inr x \<Rightarrow> True)"

section \<open>The path table\<close>

datatype schema_version = Closed | R9rnn | Metrichor1_16 | Classic | Prebasecalled

datatype strand = Template | Complement | Twodirections | Pre_basecalled

text \<open>The dict \<^verbatim>\<open>fastq_paths\<close>, each inner dict in its insertion order.\<close>

fun fastq_paths :: "schema_version \<Rightarrow> (strand \<times> string) list" where
  "fastq_paths Closed = []"
| "fastq_paths R9rnn =
     [(Template, ''/Analyses/Basecall_RNN_1D_{:03d}/BaseCalled_template'')]"
| "fastq_paths Metrichor1_16 =
     [(Template, ''/Analyses/Basecall_1D_{:03d}/BaseCalled_template''),
      (Complement, ''/Analyses/Basecall_1D_{:03d}/BaseCalled_complement''),
      (Twodirections, ''/Analyses/Basecall_2D_{:03d}/BaseCalled_2D''),
      (Pre_basecalled, ''/Analyses/EventDetection_000/Reads/'')]"
| "fastq_paths Classic =
     [(Template, ''/Analyses/Basecall_2D_{:03d}/BaseCalled_template''),
      (Complement, ''/Analyses/Basecall_2D_{:03d}/BaseCalled_complement''),
      (Twodirections, ''/Analyses/Basecall_2D_{:03d}/BaseCalled_2D''),
      (Pre_basecalled, ''/Analyses/EventDetection_000/Reads/'')]"
| "fastq_paths Prebasecalled =
     [(Pre_basecalled, ''/Analyses/EventDetection_000/Reads/'')]"




section \<open>The file handle\<close>

text \<open>
  What the operating system and the libraries answer for a path string: what
  \<^verbatim>\<open>h5py.File\<close> opens there, the tree \<^verbatim>\<open>os.walk\<close> reports for a directory, the member
  names and contents \<^verbatim>\<open>tarfile\<close> reads from an archive, other existing files, and the
  staging directory \<^verbatim>\<open>.poretools_tmp\<close> (\<open>None\<close> when it does not exist, else the files
  staged in it, by staged path).
\<close>

datatype dirtree = DirTree "string list" "(string \<times> dirtree) list"

record world =
  containers :: "(string \<times> h5node) list"
  directories :: "(string \<times> dirtree) list"
  tarballs :: "(string \<times> (string \<times> h5node option) list) list"
  other_files :: "string list"
  tmpdir :: "(string \<times> h5node option) list option"

definition PORETOOLS_TMPDIR :: string where
  "PORETOOLS_TMPDIR = ''.poretools_tmp''"

text \<open>\<^verbatim>\<open>h5py.File(path, 'r')\<close>: the container at the path, staged files first.\<close>

definition h5py_File :: "world \<Rightarrow> string \<Rightarrow> py_exception + h5node" where
  "h5py_File w p =
     (case map_of (case tmpdir w of None \<Rightarrow> [] | Some staged \<Rightarrow> staged) p of
        Some (Some c) \<Rightarrow> Inr c
      | Some None \<Rightarrow> Inl OSError
      | None \<Rightarrow> (case map_of (containers w) p of Some c \<Rightarrow> Inr c | None \<Rightarrow> Inl OSError))"

text \<open>
  A sequence record of \<^verbatim>\<open>poretools.formats\<close> (not part of this module): its display
  name and the text it was built from.
\<close>

record seq_record =
  rec_name :: string
  rec_text :: string

datatype log_level = WARNING | ERROR

text \<open>A record of the module logger: level, message text, and the exception whose
  \<^verbatim>\<open>str\<close> ends the message, if any.\<close>

datatype log_entry = Log log_level string "py_exception option"

text \<open>
  The attributes of a \<^verbatim>\<open>Fast5File\<close>. \<open>hdf5file = None\<close> is the attribute that was never
  assigned (\<^verbatim>\<open>open\<close> failed); reading it then is \<^verbatim>\<open>AttributeError\<close>. \<open>keyinfo\<close> is
  \<^verbatim>\<open>self.keyinfo\<close> (Python's \<^verbatim>\<open>None\<close> is \<open>None\<close>). \<open>logged\<close> collects what the methods
  of the handle send to the module logger.
\<close>

record Fast5File =
  filename :: string
  group :: int
  is_open :: bool
  hdf5file :: "h5node option"
  version :: schema_version
  fastas :: "strand \<Rightarrow> seq_record option"
  fastqs :: "strand \<Rightarrow> seq_record option"
  have_fastqs :: bool
  have_fastas :: bool
  have_templates :: bool
  have_complements :: bool
  have_pre_basecalled :: bool
  have_metadata :: bool
  keyinfo :: "h5node option"
  logged :: "log_entry list"

definition get_hdf5file :: "Fast5File \<Rightarrow> py_exception + h5node" where
  "get_hdf5file h = (case hdf5file h of None \<Rightarrow> Inl AttributeError | Some f \<Rightarrow> Inr f)"

definition Fast5File_open :: "world \<Rightarrow> Fast5File \<Rightarrow> bool \<times> Fast5File" where
  "Fast5File_open w h =
     (case h5py_File w (filename h) of
        Inr c \<Rightarrow> (True, h\<lparr>hdf5file := Some c\<rparr>)
      | Inl e \<Rightarrow>
          (False, h\<lparr>logged := logged h @
             [Log WARNING (''Cannot open file: '' @ filename h @
                ''. Perhaps it is corrupt? Moving on.'' @ [CHR 0x0A]) None]\<rparr>))"

text \<open>
  One block \<^verbatim>\<open>try: self.hdf5file[fmt % (self.group)] ... except KeyError: pass\<close> of
  \<^verbatim>\<open>guess_version\<close>: whether the lookup succeeded; any other exception propagates.
\<close>

definition probe :: "Fast5File \<Rightarrow> string \<Rightarrow> bool result" where
  "probe h fmt =
     (case rbind (get_hdf5file h) (\<lambda>f.
             rbind (percent_format fmt [group h]) (\<lambda>path. h5_getitem f path)) of
        Inr n \<Rightarrow> Inr True
      | Inl e \<Rightarrow> if e = KeyError then Inr False else Inl (Exception e))"

definition guess_version :: "Fast5File \<Rightarrow> schema_version result" where
  "guess_version h =
     rbind (probe h ''/Analyses/Basecall_2D_%03d/BaseCalled_template'') (\<lambda>found.
       if found then Inr Classic
       else rbind (probe h ''/Analyses/Basecall_1D_%03d/BaseCalled_template'') (\<lambda>found.
         if found then Inr Metrichor1_16
         else rbind (probe h ''/Analyses/Basecall_RNN_1D_%03d/BaseCalled_template'') (\<lambda>found.
           if found then Inr R9rnn else Inr Prebasecalled)))"

text \<open>
  \<^verbatim>\<open>Fast5File(filename, group)\<close>. The record is built with \<open>is_open\<close> and \<open>version\<close>
  as placeholders until \<^verbatim>\<open>__init__\<close> assigns them.
\<close>

definition Fast5File_init :: "world \<Rightarrow> string \<Rightarrow> int \<Rightarrow> Fast5File result" where
  "Fast5File_init w fname g =
     (let h0 = \<lparr>filename = fname, group = g, is_open = False, hdf5file = None,
                version = Closed, fastas = Map.empty, fastqs = Map.empty,
                have_fastqs = False, have_fastas = False, have_templates = False,
                have_complements = False, have_pre_basecalled = False,
                have_metadata = False, keyinfo = None, logged = []\<rparr>;
          opened = Fast5File_open w h0;
          h1 = (snd opened)\<lparr>is_open := fst opened\<rparr>
      in if is_open h1 then rbind (guess_version h1) (\<lambda>v. Inr (h1\<lparr>version := v\<rparr>))
         else Inr (h1\<lparr>version := Closed\<rparr>))"

section \<open>Built-in operations on values\<close>

definition endswith :: "string \<Rightarrow> string \<Rightarrow> bool" where
  "endswith s suf = (length suf \<le> length s \<and> drop (length s - length suf) s = suf)"

definition startswith :: "string \<Rightarrow> string \<Rightarrow> bool" where
  "startswith s pre = (take (length pre) s = pre)"

text \<open>\<^verbatim>\<open>v.endswith(suf)\<close>: only text has the method.\<close>

fun py_endswith :: "pyval \<Rightarrow> string \<Rightarrow> py_exception + bool" where
  "py_endswith (PStr s) suf = Inr (endswith s suf)"
| "py_endswith (PInt i) suf = Inl AttributeError"
| "py_endswith (PFloat r) suf = Inl AttributeError"

text \<open>\<^verbatim>\<open>int(x)\<close> of a float truncates towards zero.\<close>

definition py_trunc :: "real \<Rightarrow> int" where
  "py_trunc r = (if 0 \<le> r then \<lfloor>r\<rfloor> else \<lceil>r\<rceil>)"

definition is_digit :: "char \<Rightarrow> bool" where
  "is_digit c = (48 \<le> (of_char c :: nat) \<and> (of_char c :: nat) \<le> 57)"

definition is_space :: "char \<Rightarrow> bool" where
  "is_space c = ((of_char c :: nat) \<in> {9, 10, 11, 12, 13, 32})"

definition strip :: "string \<Rightarrow> string" where
  "strip s = rev (dropWhile is_space (rev (dropWhile is_space s)))"

text \<open>Single underscores may stand between the digits of a literal.\<close>

fun digit_groups_ok :: "string \<Rightarrow> bool" where
  "digit_groups_ok [] = False"
| "digit_groups_ok [c] = is_digit c"
| "digit_groups_ok (c # d # cs) =
     (is_digit c \<and> (if d = CHR ''_'' then digit_groups_ok cs else digit_groups_ok (d # cs)))"

definition digits_value :: "string \<Rightarrow> int" where
  "digits_value ds =
     foldl (\<lambda>acc c. 10 * acc + (int (of_char c) - 48)) 0 (filter (\<lambda>c. c \<noteq> CHR ''_'') ds)"

text \<open>\<^verbatim>\<open>int(s)\<close> of ASCII text: optional surrounding white space, an optional sign,
  decimal digits.\<close>

definition int_of_str :: "string \<Rightarrow> py_exception + int" where
  "int_of_str s =
     (let t = strip s;
          neg = (t \<noteq> [] \<and> hd t = CHR ''-'');
          ds = (if t \<noteq> [] \<and> (hd t = CHR ''-'' \<or> hd t = CHR ''+'') then tl t else t)
      in if digit_groups_ok ds then Inr (if neg then - digits_value ds else digits_value ds)
         else Inl ValueError)"

fun py_int :: "pyval \<Rightarrow> py_exception + int" where
  "py_int (PInt i) = Inr i"
| "py_int (PFloat r) = Inr (py_trunc r)"
| "py_int (PStr s) = int_of_str s"

text \<open>\<^verbatim>\<open>int(x)\<close> where \<^verbatim>\<open>x\<close> may be \<^verbatim>\<open>None\<close>.\<close>

definition py_int_opt :: "int option \<Rightarrow> py_exception + int" where
  "py_int_opt x = (case x of None \<Rightarrow> Inl TypeError | Some i \<Rightarrow> Inr i)"


text \<open>
  \<^verbatim>\<open>int(v / f)\<close> of an attribute value (a numpy scalar) by a Python int. numpy divides
  by zero to an infinity or a NaN without raising; \<^verbatim>\<open>int\<close> of either raises
  (\<^verbatim>\<open>OverflowError\<close>, \<^verbatim>\<open>ValueError\<close>), here \<open>ValueError\<close>.
\<close>

fun attr_div_int :: "pyval \<Rightarrow> int \<Rightarrow> py_exception + int" where
  "attr_div_int (PInt a) f =
     (if f = 0 then Inl ValueError else Inr (py_trunc (real_of_int a / real_of_int f)))"
| "attr_div_int (PFloat a) f =
     (if f = 0 then Inl ValueError else Inr (py_trunc (a / real_of_int f)))"
| "attr_div_int (PStr s) f = Inl TypeError"


section \<open>Objects of the container\<close>

text \<open>\<^verbatim>\<open>node[name]\<close>: a group looks the name up; a dataset takes a name for a field of a
  compound type, which the payloads here do not have; a committed datatype has no
  items.\<close>

fun node_getitem :: "h5node \<Rightarrow> string \<Rightarrow> py_exception + h5node" where
  "node_getitem (H5Group a ch) name = h5_getitem (H5Group a ch) name"
| "node_getitem (H5Dataset a d) name = Inl ValueError"
| "node_getitem (H5Datatype a) name = Inl TypeError"

text \<open>\<^verbatim>\<open>node.get(name)\<close> and \<^verbatim>\<open>node.keys()\<close>: methods of groups only.\<close>

fun node_get :: "h5node \<Rightarrow> string \<Rightarrow> py_exception + h5node option" where
  "node_get (H5Group a ch) name = h5_get (H5Group a ch) name"
| "node_get (H5Dataset a d) name = Inl AttributeError"
| "node_get (H5Datatype a) name = Inl AttributeError"

fun node_keys :: "h5node \<Rightarrow> py_exception + string list" where
  "node_keys (H5Group a ch) = Inr (map fst ch)"
| "node_keys (H5Dataset a d) = Inl AttributeError"
| "node_keys (H5Datatype a) = Inl AttributeError"

text \<open>\<^verbatim>\<open>node[()]\<close>: the whole payload of a dataset.\<close>

fun node_read :: "h5node \<Rightarrow> py_exception + h5data" where
  "node_read (H5Dataset a d) = Inr d"
| "node_read (H5Group a ch) = Inl TypeError"
| "node_read (H5Datatype a) = Inl TypeError"

text \<open>\<^verbatim>\<open>len(x)\<close> of a payload: rows of an array, characters of text.\<close>

fun data_len :: "h5data \<Rightarrow> nat" where
  "data_len (DArray rows) = length rows"
| "data_len (DString s) = length s"

text \<open>The items a payload hands to \<^verbatim>\<open>list.extend\<close>: the rows of an array; text iterates
  over its characters, each handed on as a one-field row.\<close>

fun data_items :: "h5data \<Rightarrow> pyval list list" where
  "data_items (DArray rows) = rows"
| "data_items (DString s) = map (\<lambda>c. [PStr [c]]) s"

text \<open>
  \<^verbatim>\<open>for read in table\<close>: a group iterates over its member names. A dataset iterates
  over its rows, and the body's \<^verbatim>\<open>table[read]\<close> then fails on the first row; a scalar
  dataset and a committed datatype do not iterate.
\<close>

fun node_iter_names :: "h5node \<Rightarrow> py_exception + string list" where
  "node_iter_names (H5Group a ch) = Inr (map fst ch)"
| "node_iter_names (H5Dataset a (DArray rows)) = (if rows = [] then Inr [] else Inl TypeError)"
| "node_iter_names (H5Dataset a (DString s)) = Inl TypeError"
| "node_iter_names (H5Datatype a) = Inl TypeError"

section \<open>Metadata\<close>

text \<open>\<^verbatim>\<open>_get_metadata\<close>.\<close>

definition get_metadata :: "Fast5File \<Rightarrow> Fast5File" where
  "get_metadata h =
     (case rbind (get_hdf5file h) (\<lambda>f. h5_getitem f ''/UniqueGlobalKey'') of
        Inr k \<Rightarrow> h\<lparr>keyinfo := Some k\<rparr>
      | Inl e \<Rightarrow>
          (case rbind (get_hdf5file h) (\<lambda>f. h5_getitem f ''/Key'') of
             Inr k \<Rightarrow> h\<lparr>keyinfo := Some k\<rparr>
           | Inl e' \<Rightarrow>
               h\<lparr>keyinfo := None,
                 logged := logged h @
                   [Log WARNING (''Cannot find keyinfo. Exiting.'' @ [CHR 0x0A]) None]\<rparr>))"

text \<open>The block that opens every metadata accessor:
  \<^verbatim>\<open>if self.have_metadata is False: self._get_metadata(); self.have_metadata = True\<close>.\<close>

definition load_metadata :: "Fast5File \<Rightarrow> Fast5File" where
  "load_metadata h =
     (if have_metadata h = False then (get_metadata h)\<lparr>have_metadata := True\<rparr> else h)"

text \<open>\<^verbatim>\<open>self.keyinfo[grp].attrs[a]\<close>; subscripting \<^verbatim>\<open>None\<close> is \<^verbatim>\<open>TypeError\<close>.\<close>

definition keyinfo_attr :: "Fast5File \<Rightarrow> string \<Rightarrow> string \<Rightarrow> py_exception + pyval" where
  "keyinfo_attr h grp a =
     (case keyinfo h of
        None \<Rightarrow> Inl TypeError
      | Some k \<Rightarrow> rbind (node_getitem k grp) (\<lambda>n. dict_getitem (attrs n) a))"

text \<open>
  \<^verbatim>\<open>get_exp_start_time\<close>. The parameter \<open>iso_epoch\<close> stands for the two library calls
  of the ISO branch, \<^verbatim>\<open>time.mktime(dateutil.parser.parse(s).timetuple())\<close>, whose float
  \<^verbatim>\<open>int\<close> truncates. The attribute is read once here (the source reads the same
  attribute again for each use). Only \<^verbatim>\<open>KeyError\<close> is caught.
\<close>

definition get_exp_start_time ::
    "(string \<Rightarrow> py_exception + real) \<Rightarrow> Fast5File \<Rightarrow> int option result \<times> Fast5File" where
  "get_exp_start_time iso_epoch h0 =
     (let h = load_metadata h0
      in (case rbind (keyinfo_attr h ''tracking_id'' ''exp_start_time'') (\<lambda>v.
                 rbind (py_endswith v ''Z'') (\<lambda>z.
                   if z then
                     (case v of
                        PStr s \<Rightarrow> rbind (iso_epoch s) (\<lambda>t. Inr (py_trunc t))
                      | PInt i \<Rightarrow> Inl AttributeError
                      | PFloat r \<Rightarrow> Inl AttributeError)
                   else py_int v)) of
            Inr timestamp \<Rightarrow> Inr (Some timestamp)
          | Inl e \<Rightarrow> if e = KeyError then Inr None else Inl (Exception e),
          h))"

text \<open>\<^verbatim>\<open>get_sample_frequency\<close>: every exception of the lookup is caught.\<close>

definition get_sample_frequency :: "Fast5File \<Rightarrow> int option \<times> Fast5File" where
  "get_sample_frequency h0 =
     (let h = load_metadata h0
      in (case rbind (keyinfo_attr h ''context_tags'' ''sample_frequency'') py_int of
            Inr f \<Rightarrow> Some f
          | Inl e \<Rightarrow> None,
          h))"

section \<open>Read blocks and timing\<close>

text \<open>\<^verbatim>\<open>hdf_internal_error\<close>: \<^verbatim>\<open>sys.exit(msg)\<close>; it does not return.\<close>

definition hdf_internal_error_msg :: "string \<Rightarrow> string \<Rightarrow> string" where
  "hdf_internal_error_msg fname reason =
     ''poretools internal error in file '' @ [CHR 0x27] @ fname @ [CHR 0x27] @ '':'' @ [CHR 0x0A] @
     reason @ [CHR 0x0A] @
     ''Please report this error (with the offending file) to:'' @ [CHR 0x0A] @
     ''    https://github.com/arq5x/poretools/issues''"

definition hdf_internal_error :: "Fast5File \<Rightarrow> string \<Rightarrow> 'a result" where
  "hdf_internal_error h reason = Inl (SystemExit (hdf_internal_error_msg (filename h) reason))"

text \<open>\<^verbatim>\<open>find_read_number_block_fixed_raw\<close>.\<close>

definition find_read_number_block_fixed_raw :: "Fast5File \<Rightarrow> h5node option result" where
  "find_read_number_block_fixed_raw h =
     rbind (raise_exc (rbind (get_hdf5file h) (\<lambda>f. h5_get f ''Raw/Reads''))) (\<lambda>raw_reads.
       case raw_reads of
         None \<Rightarrow> Inr None
       | Some rr \<Rightarrow>
           rbind (raise_exc (node_keys rr)) (\<lambda>reads.
             if length reads = 0 then
               hdf_internal_error h ''Raw/Reads group does not contain any items''
             else if length reads > 1 then
               hdf_internal_error h ''Raw/Reads group contains more than one item''
             else
               rbind (raise_exc (rbind (get_hdf5file h)
                        (\<lambda>f. h5_get f (''Raw/Reads/'' @ hd reads)))) (\<lambda>node.
                 case node of
                   None \<Rightarrow>
                     hdf_internal_error h
                       (''Failed to get HDF5 item '' @ [CHR 0x27] @ ''Raw/Reads/'' @ hd reads @ [CHR 0x27])
                 | Some n \<Rightarrow> Inr (Some n))))"

text \<open>
  \<^verbatim>\<open>find_event_timing_block\<close>. Its first statement applies \<^verbatim>\<open>%\<close> to a template of
  \<^verbatim>\<open>fastq_paths\<close> outside the \<^verbatim>\<open>try\<close>.
\<close>

definition find_event_timing_block :: "Fast5File \<Rightarrow> h5node option result" where
  "find_event_timing_block h =
     rbind (raise_exc (rbind (dict_getitem (fastq_paths (version h)) Template)
                         (\<lambda>t. percent_format t [group h]))) (\<lambda>path.
       case rbind (get_hdf5file h) (\<lambda>f.
              rbind (h5_getitem f path) (\<lambda>node. node_get node ''Events'')) of
         Inr r \<Rightarrow> Inr r
       | Inl e \<Rightarrow> Inr None)"

definition log_error :: "py_exception \<Rightarrow> Fast5File \<Rightarrow> Fast5File" where
  "log_error e h = h\<lparr>logged := logged h @ [Log ERROR [] (Some e)]\<rparr>"




text \<open>
  The \<^verbatim>\<open>try\<close> block of \<^verbatim>\<open>get_start_time\<close> on the raw read block:
  \<^verbatim>\<open>frequency = int(self.get_sample_frequency())\<close>, then
  \<^verbatim>\<open>int(exp_start_time) + int(node.attrs['start_time'] / frequency)\<close>.
\<close>

definition raw_start_time ::
    "int option \<Rightarrow> h5node \<Rightarrow> Fast5File \<Rightarrow> (py_exception + int) \<times> Fast5File" where
  "raw_start_time exp_start_time node h =
     (rbind (py_int_opt (fst (get_sample_frequency h))) (\<lambda>frequency.
        rbind (py_int_opt exp_start_time) (\<lambda>e.
          rbind (dict_getitem (attrs node) ''start_time'') (\<lambda>v.
            rbind (attr_div_int v frequency) (\<lambda>off. Inr (e + off))))),
      snd (get_sample_frequency h))"

definition events_start_time :: "int option \<Rightarrow> Fast5File \<Rightarrow> int option result" where
  "events_start_time exp_start_time h =
     rbind (find_event_timing_block h) (\<lambda>node.
       case node of
         None \<Rightarrow> Inr None
       | Some n \<Rightarrow>
           rbind (raise_exc (py_int_opt exp_start_time)) (\<lambda>e.
             rbind (raise_exc (rbind (dict_getitem (attrs n) ''start_time'') py_int))
               (\<lambda>off. Inr (Some (e + off)))))"

text \<open>\<^verbatim>\<open>get_start_time\<close>.\<close>

definition get_start_time ::
    "(string \<Rightarrow> py_exception + real) \<Rightarrow> Fast5File \<Rightarrow> int option result \<times> Fast5File" where
  "get_start_time iso_epoch h0 =
     (case get_exp_start_time iso_epoch h0 of
        (Inl e, h) \<Rightarrow> (Inl e, h)
      | (Inr exp_start_time, h) \<Rightarrow>
          (case find_read_number_block_fixed_raw h of
             Inl e \<Rightarrow> (Inl e, h)
           | Inr None \<Rightarrow> (events_start_time exp_start_time h, h)
           | Inr (Some node) \<Rightarrow>
               (case raw_start_time exp_start_time node h of
                  (Inr t, h1) \<Rightarrow> (Inr (Some t), h1)
                | (Inl e, h1) \<Rightarrow>
                    (events_start_time exp_start_time (log_error e h1), log_error e h1))))"


text \<open>
  Two states of a handle on the same file: the same container, file name, group and
  version, and the same metadata root once the metadata are loaded. The methods change
  a handle only in what is memoized and logged.
\<close>

definition same_file :: "Fast5File \<Rightarrow> Fast5File \<Rightarrow> bool" where
  "same_file h' h =
     (hdf5file h' = hdf5file h \<and> filename h' = filename h \<and> group h' = group h \<and>
      version h' = version h \<and> keyinfo (load_metadata h') = keyinfo (load_metadata h))"

section \<open>Event counts\<close>

text \<open>
  The \<^verbatim>\<open>try\<close> body of \<^verbatim>\<open>get_template_events_count\<close> and
  \<^verbatim>\<open>get_complement_events_count\<close>:
  \<^verbatim>\<open>table = self.hdf5file[fastq_paths[self.version][strand] % self.group]\<close>, then
  \<^verbatim>\<open>len(table['Events'][()])\<close>.
\<close>

definition events_count_body :: "Fast5File \<Rightarrow> strand \<Rightarrow> py_exception + nat" where
  "events_count_body h s =
     rbind (get_hdf5file h) (\<lambda>f.
       rbind (dict_getitem (fastq_paths (version h)) s) (\<lambda>t.
         rbind (percent_format t [group h]) (\<lambda>path.
           rbind (h5_getitem f path) (\<lambda>table.
             rbind (node_getitem table ''Events'') (\<lambda>ev.
               rbind (node_read ev) (\<lambda>d. Inr (data_len d)))))))"

definition get_template_events_count :: "Fast5File \<Rightarrow> nat result" where
  "get_template_events_count h =
     (case events_count_body h Template of Inr n \<Rightarrow> Inr n | Inl e \<Rightarrow> Inr 0)"

definition get_complement_events_count :: "Fast5File \<Rightarrow> nat result" where
  "get_complement_events_count h =
     (case events_count_body h Complement of Inr n \<Rightarrow> Inr n | Inl e \<Rightarrow> Inr 0)"

definition is_high_quality :: "Fast5File \<Rightarrow> bool result" where
  "is_high_quality h =
     rbind (get_complement_events_count h) (\<lambda>c.
       rbind (get_template_events_count h) (\<lambda>t.
         if c \<ge> t then Inr True else Inr False))"

section \<open>Sequence and event extraction\<close>

text \<open>\<^verbatim>\<open>extract_data\<close>; \<^verbatim>\<open>s["Fastq"]\<close> is the member of that name, \<^verbatim>\<open>asstr\<close> is for
  text only.\<close>

function extract_data :: "h5node \<Rightarrow> py_exception + string option" where
  "extract_data (H5Group a ch) =
     (case map_of ch ''Fastq'' of None \<Rightarrow> Inl KeyError | Some n \<Rightarrow> extract_data n)"
| "extract_data (H5Dataset a d) =
     (case d of DString s \<Rightarrow> Inr (Some s) | DArray rows \<Rightarrow> Inl TypeError)"
| "extract_data (H5Datatype a) = Inr None"
  by pat_completeness auto
termination
proof (relation "measure size")
  show "wf (measure (size :: h5node \<Rightarrow> nat))" by simp
next
  fix a :: "(string \<times> pyval) list" and ch :: "(string \<times> h5node) list" and n
  assume "map_of ch ''Fastq'' = Some n"
  then have "(''Fastq'', n) \<in> set ch" by (rule map_of_SomeD)
  then have "size n \<le> size_list (size_prod (\<lambda>x. 0) size) ch"
    by (induction ch) auto
  then show "(n, H5Group a ch) \<in> measure size" by simp
qed

text \<open>
  One pass of the loop body of \<^verbatim>\<open>_extract_fastqs_from_fast5\<close> inside its \<^verbatim>\<open>try\<close>, for
  one table entry: \<open>None\<close> is the \<^verbatim>\<open>continue\<close> on an empty table. The parameter
  \<open>Fastq\<close> is the constructor \<^verbatim>\<open>formats.Fastq\<close>.
\<close>

definition fastq_body ::
    "(string \<Rightarrow> py_exception + seq_record) \<Rightarrow> Fast5File \<Rightarrow> string \<Rightarrow> py_exception + seq_record option" where
  "fastq_body Fastq h h5path =
     rbind (get_hdf5file h) (\<lambda>f.
       rbind (str_format h5path [group h]) (\<lambda>path.
         rbind (h5_getitem f path) (\<lambda>node.
           rbind (extract_data node) (\<lambda>table.
             case table of
               None \<Rightarrow> Inr None
             | Some t \<Rightarrow>
                 if t = [] then Inr None
                 else rbind (Fastq t) (\<lambda>fq.
                        Inr (Some (fq\<lparr>rec_name := rec_name fq @ '' '' @ filename h\<rparr>)))))))"

fun extract_fastqs_loop ::
    "(string \<Rightarrow> py_exception + seq_record) \<Rightarrow> (strand \<times> string) list \<Rightarrow> Fast5File \<Rightarrow> Fast5File" where
  "extract_fastqs_loop Fastq [] h = h"
| "extract_fastqs_loop Fastq ((sid, h5path) # rest) h =
     extract_fastqs_loop Fastq rest
       (case fastq_body Fastq h h5path of
          Inr None \<Rightarrow> h
        | Inr (Some fq) \<Rightarrow> h\<lparr>fastqs := (fastqs h)(sid \<mapsto> fq)\<rparr>
        | Inl e \<Rightarrow>
            h\<lparr>logged := logged h @
               [Log WARNING (''Could not extract FASTQ from '' @ filename h @ '': '') (Some e)]\<rparr>)"

definition extract_fastqs_from_fast5 ::
    "(string \<Rightarrow> py_exception + seq_record) \<Rightarrow> Fast5File \<Rightarrow> Fast5File result" where
  "extract_fastqs_from_fast5 Fastq h = Inr (extract_fastqs_loop Fastq (fastq_paths (version h)) h)"

text \<open>The same for \<^verbatim>\<open>_extract_fastas_from_fast5\<close>, which instantiates the template with
  \<^verbatim>\<open>h5path % self.group\<close>.\<close>

definition fasta_body ::
    "(string \<Rightarrow> py_exception + seq_record) \<Rightarrow> Fast5File \<Rightarrow> string \<Rightarrow> py_exception + seq_record option" where
  "fasta_body Fasta h h5path =
     rbind (get_hdf5file h) (\<lambda>f.
       rbind (percent_format h5path [group h]) (\<lambda>path.
         rbind (h5_getitem f path) (\<lambda>node.
           rbind (extract_data node) (\<lambda>table.
             case table of
               None \<Rightarrow> Inr None
             | Some t \<Rightarrow>
                 if t = [] then Inr None
                 else rbind (Fasta t) (\<lambda>fa.
                        Inr (Some (fa\<lparr>rec_name := rec_name fa @ '' '' @ filename h\<rparr>)))))))"

fun extract_fastas_loop ::
    "(string \<Rightarrow> py_exception + seq_record) \<Rightarrow> (strand \<times> string) list \<Rightarrow> Fast5File \<Rightarrow> Fast5File" where
  "extract_fastas_loop Fasta [] h = h"
| "extract_fastas_loop Fasta ((sid, h5path) # rest) h =
     extract_fastas_loop Fasta rest
       (case fasta_body Fasta h h5path of
          Inr None \<Rightarrow> h
        | Inr (Some fa) \<Rightarrow> h\<lparr>fastas := (fastas h)(sid \<mapsto> fa)\<rparr>
        | Inl e \<Rightarrow>
            h\<lparr>logged := logged h @
               [Log WARNING (''Could not extract FASTA from '' @ filename h @ '': '') (Some e)]\<rparr>)"

definition extract_fastas_from_fast5 ::
    "(string \<Rightarrow> py_exception + seq_record) \<Rightarrow> Fast5File \<Rightarrow> Fast5File result" where
  "extract_fastas_from_fast5 Fasta h = Inr (extract_fastas_loop Fasta (fastq_paths (version h)) h)"

text \<open>
  \<^verbatim>\<open>_extract_pre_basecalled_events\<close>: the value it assigns to
  \<^verbatim>\<open>self.pre_basecalled_events\<close>. Its \<^verbatim>\<open>try\<close>/\<^verbatim>\<open>except\<close> is commented out in the
  source, so every exception leaves the method. The parameter \<open>Event\<close> is the
  constructor of \<^verbatim>\<open>poretools.Event\<close>.
\<close>

fun collect_events :: "h5node \<Rightarrow> string list \<Rightarrow> py_exception + pyval list list" where
  "collect_events table [] = Inr []"
| "collect_events table (read # reads) =
     rbind (node_getitem table read) (\<lambda>r.
       rbind (node_getitem r ''Events'') (\<lambda>ev.
         rbind (node_read ev) (\<lambda>d.
           rbind (collect_events table reads) (\<lambda>more. Inr (data_items d @ more)))))"

fun map_events :: "('r \<Rightarrow> py_exception + 'ev) \<Rightarrow> 'r list \<Rightarrow> py_exception + 'ev list" where
  "map_events Event [] = Inr []"
| "map_events Event (x # xs) =
     rbind (Event x) (\<lambda>e. rbind (map_events Event xs) (\<lambda>es. Inr (e # es)))"

definition extract_pre_basecalled_events ::
    "(pyval list \<Rightarrow> py_exception + 'ev) \<Rightarrow> Fast5File \<Rightarrow> 'ev list result" where
  "extract_pre_basecalled_events Event h =
     raise_exc
       (rbind (get_hdf5file h) (\<lambda>f.
          rbind (dict_getitem (fastq_paths (version h)) Pre_basecalled) (\<lambda>path.
            rbind (h5_getitem f path) (\<lambda>table.
              rbind (node_iter_names table) (\<lambda>reads.
                rbind (collect_events table reads) (\<lambda>events. map_events Event events))))))"

section \<open>The file set\<close>

subsection \<open>Paths and the file system\<close>

definition basename :: "string \<Rightarrow> string" where
  "basename p = rev (takeWhile (\<lambda>c. c \<noteq> CHR ''/'') (rev p))"

text \<open>\<^verbatim>\<open>os.path.join(a, b)\<close> (POSIX).\<close>

definition path_join :: "string \<Rightarrow> string \<Rightarrow> string" where
  "path_join a b =
     (if startswith b ''/'' then b
      else if a = [] \<or> endswith a ''/'' then a @ b
      else a @ ''/'' @ b)"

definition isdir :: "world \<Rightarrow> string \<Rightarrow> bool" where
  "isdir w p =
     (if p = PORETOOLS_TMPDIR then tmpdir w \<noteq> None
      else (case map_of (directories w) p of None \<Rightarrow> False | Some t \<Rightarrow> True))"

text \<open>\<^verbatim>\<open>os.walk(dirpath)\<close>, top-down: \<^verbatim>\<open>(dirpath, dirnames, filenames)\<close> of a directory, then
  of each sub-directory.\<close>

fun os_walk :: "string \<Rightarrow> dirtree \<Rightarrow> (string \<times> string list \<times> string list) list" where
  "os_walk dirpath (DirTree filenames subdirs) =
     (dirpath, map fst subdirs, filenames) #
       concat (map (\<lambda>sub. os_walk (path_join dirpath (fst sub)) (snd sub)) subdirs)"

text \<open>\<^verbatim>\<open>tarfile.is_tarfile(f)\<close> opens the path: a path that names nothing raises.\<close>

definition is_tarfile :: "world \<Rightarrow> string \<Rightarrow> py_exception + bool" where
  "is_tarfile w p =
     (case map_of (tarballs w) p of
        Some members \<Rightarrow> Inr True
      | None \<Rightarrow>
          if map_of (containers w) p \<noteq> None \<or> p \<in> set (other_files w) then Inr False
          else Inl FileNotFoundError)"

text \<open>\<^verbatim>\<open>shutil.rmtree(PORETOOLS_TMPDIR)\<close>, called without \<^verbatim>\<open>ignore_errors\<close>, and
  \<^verbatim>\<open>os.mkdir(PORETOOLS_TMPDIR)\<close>.\<close>

definition rmtree_tmpdir :: "world \<Rightarrow> py_exception + world" where
  "rmtree_tmpdir w =
     (case tmpdir w of None \<Rightarrow> Inl FileNotFoundError | Some staged \<Rightarrow> Inr (w\<lparr>tmpdir := None\<rparr>))"

definition mkdir_tmpdir :: "world \<Rightarrow> py_exception + world" where
  "mkdir_tmpdir w =
     (case tmpdir w of None \<Rightarrow> Inr (w\<lparr>tmpdir := Some []\<rparr>) | Some staged \<Rightarrow> Inl OSError)"

subsection \<open>The archive iterator\<close>

text \<open>An open \<^verbatim>\<open>tarfile.TarFile\<close>: its members (name and content) and how many of them
  have been read.\<close>

record TarFile =
  tar_members :: "(string \<times> h5node option) list"
  tar_pos :: nat

record TarballFileIterator =
  tb_tarball :: string
  tb_tarfile :: TarFile

definition tarfile_open :: "world \<Rightarrow> string \<Rightarrow> py_exception + TarFile" where
  "tarfile_open w p =
     (case map_of (tarballs w) p of
        None \<Rightarrow> Inl OSError
      | Some members \<Rightarrow> Inr \<lparr>tar_members = members, tar_pos = 0\<rparr>)"

text \<open>
  The built-in \<^verbatim>\<open>next(obj)\<close> applied to a \<^verbatim>\<open>TarFile\<close>. The class \<^verbatim>\<open>tarfile.TarFile\<close>
  of Python 3 defines the method \<^verbatim>\<open>next()\<close> and \<^verbatim>\<open>__iter__\<close>, and no \<^verbatim>\<open>__next__\<close>: the
  built-in raises \<^verbatim>\<open>TypeError\<close> (\<^verbatim>\<open>'TarFile' object is not an iterator\<close>).
\<close>

definition builtin_next_TarFile ::
    "TarFile \<Rightarrow> py_exception + ((string \<times> h5node option) option \<times> TarFile)" where
  "builtin_next_TarFile tf = Inl TypeError"

text \<open>\<^verbatim>\<open>TarballFileIterator._fast5_filename_filter\<close>.\<close>

definition fast5_filename_filter :: "string \<Rightarrow> bool" where
  "fast5_filename_filter fname =
     (endswith (basename fname) ''.fast5'' \<and> \<not> startswith (basename fname) ''.'')"

text \<open>\<^verbatim>\<open>self._tarfile.extract(tarinfo, path=PORETOOLS_TMPDIR)\<close>.\<close>

definition tar_extract :: "string \<times> h5node option \<Rightarrow> world \<Rightarrow> world" where
  "tar_extract tarinfo w =
     w\<lparr>tmpdir := Some ((case tmpdir w of None \<Rightarrow> [] | Some staged \<Rightarrow> staged) @
                      [(path_join PORETOOLS_TMPDIR (fst tarinfo), snd tarinfo)])\<rparr>"

text \<open>\<^verbatim>\<open>TarballFileIterator.__next__\<close>, whose loop starts with
  \<^verbatim>\<open>tarinfo = next(self._tarfile)\<close>.\<close>

function TarballFileIterator_next ::
    "TarballFileIterator \<Rightarrow> world \<Rightarrow> (py_exception + string) \<times> TarballFileIterator \<times> world" where
  "TarballFileIterator_next it w =
     (case builtin_next_TarFile (tb_tarfile it) of
        Inl e \<Rightarrow> (Inl e, it, w)
      | Inr r \<Rightarrow>
          (case fst r of
             None \<Rightarrow> (Inl StopIteration, it\<lparr>tb_tarfile := snd r\<rparr>, w)
           | Some tarinfo \<Rightarrow>
               if fast5_filename_filter (fst tarinfo)
               then (Inr (path_join PORETOOLS_TMPDIR (fst tarinfo)),
                     it\<lparr>tb_tarfile := snd r\<rparr>, tar_extract tarinfo w)
               else TarballFileIterator_next (it\<lparr>tb_tarfile := snd r\<rparr>) w))"
  by pat_completeness auto
termination
  by (relation "{}") (simp_all add: builtin_next_TarFile_def)


subsection \<open>The enumerator\<close>

datatype set_kind =
  FAST5SET_FILELIST | FAST5SET_DIRECTORY | FAST5SET_SINGLEFILE | FAST5SET_TARBALL

text \<open>What \<^verbatim>\<open>self.files\<close> holds: a list iterator or the archive iterator.\<close>

datatype path_iter = ListIter "string list" | TarIter TarballFileIterator

record Fast5FileSet =
  fileset :: "string list"
  set_type :: "set_kind option"
  num_files_in_set :: "nat option"
  set_group :: int
  files :: path_iter
  set_logged :: "log_entry list"

text \<open>The argument of the constructor: a list of paths or one path.\<close>

datatype fileset_arg = PathList "string list" | PathStr string

text \<open>The list comprehension over \<^verbatim>\<open>os.walk(f)\<close>:
  \<^verbatim>\<open>os.path.join(dirpath + os.path.sep + fast5file)\<close> for every file of every directory.\<close>

definition walked_files :: "string \<Rightarrow> dirtree \<Rightarrow> string list" where
  "walked_files f tree =
     concat (map (\<lambda>entry. map (\<lambda>fast5file. fst entry @ ''/'' @ fast5file) (snd (snd entry)))
               (os_walk f tree))"

text \<open>The files the comprehension collects for a directory. (The staging directory
  has no entry among \<open>directories\<close>; as an input it lists as empty.)\<close>

definition directory_files :: "world \<Rightarrow> string \<Rightarrow> string list" where
  "directory_files w f =
     (case map_of (directories w) f of None \<Rightarrow> [] | Some tree \<Rightarrow> walked_files f tree)"


text \<open>\<^verbatim>\<open>Fast5FileSet.__init__\<close> with \<^verbatim>\<open>_extract_fast5_files\<close>.\<close>

definition Fast5FileSet_init :: "fileset_arg \<Rightarrow> int \<Rightarrow> world \<Rightarrow> Fast5FileSet result \<times> world" where
  "Fast5FileSet_init arg g w =
     (let fs = (case arg of PathList l \<Rightarrow> l | PathStr p \<Rightarrow> [p]);
          s0 = \<lparr>fileset = fs, set_type = None, num_files_in_set = None, set_group = g,
                files = ListIter [], set_logged = []\<rparr>
      in if length fs > 1 then
           (Inr (s0\<lparr>files := ListIter fs, num_files_in_set := Some (length fs),
                    set_type := Some FAST5SET_FILELIST\<rparr>), w)
         else if length fs = 1 then
           (let f = hd fs in
            if isdir w f then
              (let fl = directory_files w f
               in (Inr (s0\<lparr>files := ListIter fl, num_files_in_set := Some (length fl),
                           set_type := Some FAST5SET_DIRECTORY,
                           set_logged := (if length fl = 0
                                          then [Log WARNING ''Directory is empty!'' None] else [])\<rparr>),
                   w))
            else
              (case is_tarfile w f of
                 Inl e \<Rightarrow> (Inl (Exception e), w)
               | Inr True \<Rightarrow>
                   (case (if isdir w PORETOOLS_TMPDIR then rmtree_tmpdir w else Inr w) of
                      Inl e \<Rightarrow> (Inl (Exception e), w)
                    | Inr w1 \<Rightarrow>
                        (case mkdir_tmpdir w1 of
                           Inl e \<Rightarrow> (Inl (Exception e), w1)
                         | Inr w2 \<Rightarrow>
                             (case tarfile_open w2 f of
                                Inl e \<Rightarrow> (Inl (Exception e), w2)
                              | Inr tf \<Rightarrow>
                                  (Inr (s0\<lparr>files := TarIter \<lparr>tb_tarball = f, tb_tarfile = tf\<rparr>,
                                          num_files_in_set := None,
                                          set_type := Some FAST5SET_TARBALL\<rparr>), w2))))
               | Inr False \<Rightarrow>
                   (Inr (s0\<lparr>files := ListIter [f], num_files_in_set := Some 1,
                            set_type := Some FAST5SET_SINGLEFILE\<rparr>), w)))
         else (Inl (SystemExit []), w))"



text \<open>\<^verbatim>\<open>next(self.files)\<close>.\<close>

fun path_iter_next :: "path_iter \<Rightarrow> world \<Rightarrow> (py_exception + string) \<times> path_iter \<times> world" where
  "path_iter_next (ListIter []) w = (Inl StopIteration, ListIter [], w)"
| "path_iter_next (ListIter (p # ps)) w = (Inr p, ListIter ps, w)"
| "path_iter_next (TarIter it) w =
     (case TarballFileIterator_next it w of (r, it1, w1) \<Rightarrow> (r, TarIter it1, w1))"

text \<open>
  \<^verbatim>\<open>Fast5FileSet.__next__\<close>: the handle of the next path; on any \<^verbatim>\<open>Exception\<close> the
  handler removes the staging directory of an archive set and raises
  \<^verbatim>\<open>StopIteration\<close>. An exception raised inside the handler leaves the method in its
  place.
\<close>

definition Fast5FileSet_next ::
    "Fast5FileSet \<Rightarrow> world \<Rightarrow> Fast5File result \<times> Fast5FileSet \<times> world" where
  "Fast5FileSet_next s w =
     (case path_iter_next (files s) w of
        (r, it1, w1) \<Rightarrow>
          (case rbind (raise_exc r) (\<lambda>p. Fast5File_init w1 p (set_group s)) of
             Inr h \<Rightarrow> (Inr h, s\<lparr>files := it1\<rparr>, w1)
           | Inl (SystemExit m) \<Rightarrow> (Inl (SystemExit m), s\<lparr>files := it1\<rparr>, w1)
           | Inl (Exception e) \<Rightarrow>
               if set_type s = Some FAST5SET_TARBALL then
                 (case rmtree_tmpdir w1 of
                    Inl e1 \<Rightarrow> (Inl (Exception e1), s\<lparr>files := it1\<rparr>, w1)
                  | Inr w2 \<Rightarrow> (Inl (Exception StopIteration), s\<lparr>files := it1\<rparr>, w2))
               else (Inl (Exception StopIteration), s\<lparr>files := it1\<rparr>, w1)))"

text \<open>
  The warnings one pass over a table sends to the logger: one for each entry whose
  \<^verbatim>\<open>try\<close> body raises, in table order, with the file name and the exception.
\<close>

fun fastq_warnings ::
    "(string \<Rightarrow> py_exception + seq_record) \<Rightarrow> Fast5File \<Rightarrow> (strand \<times> string) list \<Rightarrow> log_entry list" where
  "fastq_warnings Fastq h [] = []"
| "fastq_warnings Fastq h ((sid, h5path) # rest) =
     (case fastq_body Fastq h h5path of
        Inl e \<Rightarrow> [Log WARNING (''Could not extract FASTQ from '' @ filename h @ '': '') (Some e)]
      | Inr r \<Rightarrow> []) @ fastq_warnings Fastq h rest"

fun fasta_warnings ::
    "(string \<Rightarrow> py_exception + seq_record) \<Rightarrow> Fast5File \<Rightarrow> (strand \<times> string) list \<Rightarrow> log_entry list" where
  "fasta_warnings Fasta h [] = []"
| "fasta_warnings Fasta h ((sid, h5path) # rest) =
     (case fasta_body Fasta h h5path of
        Inl e \<Rightarrow> [Log WARNING (''Could not extract FASTA from '' @ filename h @ '': '') (Some e)]
      | Inr r \<Rightarrow> []) @ fasta_warnings Fasta h rest"

section \<open>Example files\<close>

text \<open>The handle \<^verbatim>\<open>Fast5File(fname, g)\<close> of a file that opened, as the constructor leaves
  it.\<close>

definition opened_handle :: "string \<Rightarrow> int \<Rightarrow> h5node \<Rightarrow> schema_version \<Rightarrow> Fast5File" where
  "opened_handle fname g c v =
     \<lparr>filename = fname, group = g, is_open = True, hdf5file = Some c, version = v,
      fastas = Map.empty, fastqs = Map.empty, have_fastqs = False, have_fastas = False,
      have_templates = False, have_complements = False, have_pre_basecalled = False,
      have_metadata = False, keyinfo = None, logged = []\<rparr>"

definition one_file_world :: "string \<Rightarrow> h5node \<Rightarrow> world" where
  "one_file_world fname c =
     \<lparr>containers = [(fname, c)], directories = [], tarballs = [], other_files = [],
      tmpdir = None\<rparr>"

text \<open>A container with both a 2-D and a 1-D basecall group at index 0.\<close>

definition both_groups :: h5node where
  "both_groups =
     H5Group []
       [(''Analyses'', H5Group []
          [(''Basecall_1D_000'', H5Group [] [(''BaseCalled_template'', H5Group [] [])]),
           (''Basecall_2D_000'', H5Group [] [(''BaseCalled_template'', H5Group [] [])])])]"




text \<open>A classic container whose template holds a sequence, whose 2-D group holds an
  array where text is expected, and which has no complement.\<close>

definition template_only :: h5node where
  "template_only =
     H5Group []
       [(''Analyses'', H5Group []
          [(''Basecall_2D_000'', H5Group []
             [(''BaseCalled_template'', H5Group []
                 [(''Fastq'', H5Dataset [] (DString ''@read1''))]),
              (''BaseCalled_2D'', H5Group []
                 [(''Fastq'', H5Dataset [] (DArray []))])])])]"

text \<open>A stand-in for \<^verbatim>\<open>formats.Fastq\<close>: the record named after the first line.\<close>

definition example_Fastq :: "string \<Rightarrow> py_exception + seq_record" where
  "example_Fastq t = Inr \<lparr>rec_name = takeWhile (\<lambda>c. c \<noteq> CHR 0x0A) t, rec_text = t\<rparr>"

text \<open>An archive of four members, one of them a container.\<close>

definition example_archive :: "(string \<times> h5node option) list" where
  "example_archive =
     [(''a.fast5'', Some (H5Group [] [])), (''.hidden.fast5'', None),
      (''b.txt'', None), (''b.fast5'', None)]"

text \<open>A file system with that archive, a directory tree with files at two depths, and
  a single container; the staging directory does not exist.\<close>

definition example_world :: world where
  "example_world =
     \<lparr>containers = [(''single.fast5'', H5Group [] [])],
      directories =
        [(''run1'', DirTree [''x.fast5'']
            [(''pass'', DirTree [''y.fast5'', ''notes.txt''] []),
             (''fail'', DirTree [''z.fast5''] [])])],
      tarballs = [(''reads.tar'', example_archive)],
      other_files = [], tmpdir = None\<rparr>"

text \<open>The enumerator of the archive as its constructor leaves it, and the world then:
  the staging directory exists and is empty.\<close>

definition archive_set :: Fast5FileSet where
  "archive_set =
     \<lparr>fileset = [''reads.tar''], set_type = Some FAST5SET_TARBALL, num_files_in_set = None,
      set_group = 0,
      files = TarIter \<lparr>tb_tarball = ''reads.tar'',
                       tb_tarfile = \<lparr>tar_members = example_archive, tar_pos = 0\<rparr>\<rparr>,
      set_logged = []\<rparr>"

definition staged_world :: world where
  "staged_world = example_world\<lparr>tmpdir := Some []\<rparr>"

section \<open>Theorems\<close>

lemma rbind_Inr [simp]: "rbind (Inr x) f = f x"
  by (simp add: rbind_def)

lemma rbind_Inl [simp]: "rbind (Inl e) f = Inl e"
  by (simp add: rbind_def)

lemma str_format_literal:
  "CHR ''{'' \<notin> set p \<Longrightarrow> CHR ''}'' \<notin> set p \<Longrightarrow>
   str_format (p @ rest) args = rbind (str_format rest args) (\<lambda>r. Inr (p @ r))"
  by (induction p) (auto simp: rbind_def split: sum.splits)

lemma str_format_field:
  "CHR ''{'' \<notin> set p \<Longrightarrow> CHR ''}'' \<notin> set p \<Longrightarrow> CHR ''{'' \<notin> set q \<Longrightarrow> CHR ''}'' \<notin> set q \<Longrightarrow>
   str_format (p @ ''{:03d}'' @ q) [g] = Inr (p @ pad03d g @ q)"
  using str_format_literal [of q "[]" "[]"]
  by (simp add: str_format_literal)

lemma percent_format_literal:
  "CHR ''%'' \<notin> set p \<Longrightarrow>
   percent_format (p @ rest) args = rbind (percent_format rest args) (\<lambda>r. Inr (p @ r))"
  by (induction p) (auto simp: rbind_def split: sum.splits)

lemma percent_format_no_conversion:
  "CHR ''%'' \<notin> set p \<Longrightarrow> percent_format p [g] = Inl TypeError"
  by (induction p) (auto simp: rbind_def)

lemma templates_no_percent:
  "map_of (fastq_paths v) s = Some t \<Longrightarrow> CHR ''%'' \<notin> set t"
  by (cases v; cases s) auto

lemma walk_KeyError: "walk n cs = Inl e \<Longrightarrow> e = KeyError"
  by (induction n cs rule: walk.induct) (auto split: option.splits)

lemma h5_getitem_KeyError: "h5_getitem n p = Inl e \<Longrightarrow> e = KeyError"
  unfolding h5_getitem_def by (rule walk_KeyError)

lemma pad03d_0: "pad03d 0 = ''000''"
  by code_simp

subsection \<open>Schema version detection\<close>

lemma probe_exists:
  assumes "hdf5file h = Some c" and "percent_format fmt [group h] = Inr path"
  shows "probe h fmt = Inr (h5_exists c path)"
  using assms h5_getitem_KeyError [of c path]
  by (auto simp: probe_def get_hdf5file_def h5_exists_def split: sum.splits)

text \<open>
  Claim C1. On a handle whose container opened, \<^verbatim>\<open>guess_version\<close> returns, and its
  result is decided by three probes in a fixed order: \<open>Classic\<close> when
  \<^verbatim>\<open>/Analyses/Basecall_2D_ggg/BaseCalled_template\<close> exists, else \<open>Metrichor1_16\<close> when
  \<^verbatim>\<open>/Analyses/Basecall_1D_ggg/BaseCalled_template\<close> exists, else \<open>R9rnn\<close> when
  \<^verbatim>\<open>/Analyses/Basecall_RNN_1D_ggg/BaseCalled_template\<close> exists, else \<open>Prebasecalled\<close>
  (\<^verbatim>\<open>ggg\<close> the zero-padded group index). A container with both the 2-D and the 1-D
  path resolves to \<open>Classic\<close>, and probing again, whatever version the handle has
  stored, gives the same result.
\<close>

theorem guess_version_probe_order:
  assumes "hdf5file h = Some c"
  shows "guess_version h =
           Inr (if h5_exists c (''/Analyses/Basecall_2D_'' @ pad03d (group h) @ ''/BaseCalled_template'')
                then Classic
                else if h5_exists c (''/Analyses/Basecall_1D_'' @ pad03d (group h) @ ''/BaseCalled_template'')
                then Metrichor1_16
                else if h5_exists c (''/Analyses/Basecall_RNN_1D_'' @ pad03d (group h) @ ''/BaseCalled_template'')
                then R9rnn
                else Prebasecalled)
         \<and> (h5_exists c (''/Analyses/Basecall_2D_'' @ pad03d (group h) @ ''/BaseCalled_template'') \<and>
            h5_exists c (''/Analyses/Basecall_1D_'' @ pad03d (group h) @ ''/BaseCalled_template'')
              \<longrightarrow> guess_version h = Inr Classic)
         \<and> (\<forall>v. guess_version (h\<lparr>version := v\<rparr>) = guess_version h)"
proof -
  let ?g = "group h"
  have p1: "probe h ''/Analyses/Basecall_2D_%03d/BaseCalled_template''
              = Inr (h5_exists c (''/Analyses/Basecall_2D_'' @ pad03d ?g @ ''/BaseCalled_template''))"
    by (rule probe_exists [OF assms]) simp
  have p2: "probe h ''/Analyses/Basecall_1D_%03d/BaseCalled_template''
              = Inr (h5_exists c (''/Analyses/Basecall_1D_'' @ pad03d ?g @ ''/BaseCalled_template''))"
    by (rule probe_exists [OF assms]) simp
  have p3: "probe h ''/Analyses/Basecall_RNN_1D_%03d/BaseCalled_template''
              = Inr (h5_exists c (''/Analyses/Basecall_RNN_1D_'' @ pad03d ?g @ ''/BaseCalled_template''))"
    by (rule probe_exists [OF assms]) simp
  have order: "guess_version h =
           Inr (if h5_exists c (''/Analyses/Basecall_2D_'' @ pad03d ?g @ ''/BaseCalled_template'')
                then Classic
                else if h5_exists c (''/Analyses/Basecall_1D_'' @ pad03d ?g @ ''/BaseCalled_template'')
                then Metrichor1_16
                else if h5_exists c (''/Analyses/Basecall_RNN_1D_'' @ pad03d ?g @ ''/BaseCalled_template'')
                then R9rnn
                else Prebasecalled)"
    unfolding guess_version_def p1 p2 p3 by simp
  have same: "\<forall>v. guess_version (h\<lparr>version := v\<rparr>) = guess_version h"
  proof -
    have "probe (h\<lparr>version := v\<rparr>) fmt = probe h fmt" for v fmt
      by (simp add: probe_def get_hdf5file_def)
    then show ?thesis unfolding guess_version_def by (simp cong: if_cong)
  qed
  from order same show ?thesis by simp
qed

lemma both_groups_2D: "h5_exists both_groups ''/Analyses/Basecall_2D_000/BaseCalled_template''"
  by (simp add: h5_exists_def h5_getitem_def both_groups_def)

lemma both_groups_1D: "h5_exists both_groups ''/Analyses/Basecall_1D_000/BaseCalled_template''"
  by (simp add: h5_exists_def h5_getitem_def both_groups_def)

theorem guess_version_probe_order_witness:
  "hdf5file (opened_handle ''both.fast5'' 0 both_groups Classic) = Some both_groups
   \<and> h5_exists both_groups ''/Analyses/Basecall_2D_000/BaseCalled_template''
   \<and> h5_exists both_groups ''/Analyses/Basecall_1D_000/BaseCalled_template''
   \<and> guess_version (opened_handle ''both.fast5'' 0 both_groups Classic) = Inr Classic"
proof -
  have h: "hdf5file (opened_handle ''both.fast5'' 0 both_groups Classic) = Some both_groups"
    by (simp add: opened_handle_def)
  have g: "group (opened_handle ''both.fast5'' 0 both_groups Classic) = 0"
    by (simp add: opened_handle_def)
  from guess_version_probe_order [OF h] both_groups_2D both_groups_1D h
  show ?thesis by (simp add: g pad03d_0)
qed

text \<open>The handle of the witness is the one the constructor builds for that file.\<close>

lemma Fast5File_init_both_groups:
  "Fast5File_init (one_file_world ''both.fast5'' both_groups) ''both.fast5'' 0
     = Inr (opened_handle ''both.fast5'' 0 both_groups Classic)"
  by (simp add: Fast5File_init_def Fast5File_open_def h5py_File_def one_file_world_def
      guess_version_def probe_def get_hdf5file_def pad03d_0 h5_getitem_def both_groups_def
      opened_handle_def Let_def)

subsection \<open>The path table\<close>


subsection \<open>Event counts\<close>

lemma events_count_body_raises: "\<exists>e. events_count_body h s = Inl e"
proof (cases "hdf5file h")
  case None
  then show ?thesis by (simp add: events_count_body_def get_hdf5file_def)
next
  case (Some c)
  show ?thesis
  proof (cases "map_of (fastq_paths (version h)) s")
    case None
    with Some show ?thesis
      by (simp add: events_count_body_def get_hdf5file_def dict_getitem_def)
  next
    case (Some t)
    then have "percent_format t [group h] = Inl TypeError"
      by (intro percent_format_no_conversion templates_no_percent)
    with Some \<open>hdf5file h = Some c\<close> show ?thesis
      by (simp add: events_count_body_def get_hdf5file_def dict_getitem_def)
  qed
qed

text \<open>
  Claim C10. \<^verbatim>\<open>get_template_events_count\<close> and \<^verbatim>\<open>get_complement_events_count\<close>
  return 0, never absent and never an exception, and \<^verbatim>\<open>is_high_quality\<close> returns
  \<^verbatim>\<open>True\<close>, on every handle: in particular whenever the strand has no entry for the
  detected schema or its events table cannot be read. (The lookup inside the \<^verbatim>\<open>try\<close>
  raises on every handle: a strand with no entry is \<^verbatim>\<open>KeyError\<close>, and \<^verbatim>\<open>%\<close> applied to
  a template that has no \<^verbatim>\<open>%\<close> conversion is \<^verbatim>\<open>TypeError\<close>.)
\<close>

theorem events_counts_zero:
  "get_template_events_count h = Inr 0
   \<and> get_complement_events_count h = Inr 0
   \<and> is_high_quality h = Inr True"
proof -
  obtain e1 where e1: "events_count_body h Template = Inl e1"
    using events_count_body_raises by blast
  obtain e2 where e2: "events_count_body h Complement = Inl e2"
    using events_count_body_raises by blast
  show ?thesis
    by (simp add: get_template_events_count_def get_complement_events_count_def
        is_high_quality_def e1 e2)
qed

subsection \<open>Sequence extraction\<close>

lemma fastq_paths_distinct: "distinct (map fst (fastq_paths v))"
  by (cases v) simp_all

lemma fastq_body_cong:
  "hdf5file h' = hdf5file h \<Longrightarrow> group h' = group h \<Longrightarrow> filename h' = filename h \<Longrightarrow>
   fastq_body F h' t = fastq_body F h t"
  by (simp add: fastq_body_def get_hdf5file_def cong: option.case_cong if_cong)

lemma fastq_warnings_cong:
  "hdf5file h' = hdf5file h \<Longrightarrow> group h' = group h \<Longrightarrow> filename h' = filename h \<Longrightarrow>
   fastq_warnings F h' tbl = fastq_warnings F h tbl"
proof (induction tbl)
  case Nil
  then show ?case by simp
next
  case (Cons p tbl)
  obtain s t where p: "p = (s, t)" by (cases p)
  from Cons.prems have "fastq_body F h' t = fastq_body F h t"
    by (intro fastq_body_cong)
  with Cons p show ?case by (simp cong: sum.case_cong)
qed

lemma extract_fastqs_loop_fastqs:
  "distinct (map fst tbl) \<Longrightarrow>
   fastqs (extract_fastqs_loop F tbl h) s =
     (case map_of tbl s of
        None \<Rightarrow> fastqs h s
      | Some t \<Rightarrow> (case fastq_body F h t of
                     Inr (Some fq) \<Rightarrow> Some fq
                   | Inr None \<Rightarrow> fastqs h s
                   | Inl e \<Rightarrow> fastqs h s))"
proof (induction F tbl h rule: extract_fastqs_loop.induct)
  case (1 F h)
  then show ?case by simp
next
  case (2 F sid h5path rest h)
  let ?h1 = "(case fastq_body F h h5path of
          Inr None \<Rightarrow> h
        | Inr (Some fq) \<Rightarrow> h\<lparr>fastqs := (fastqs h)(sid \<mapsto> fq)\<rparr>
        | Inl e \<Rightarrow>
            h\<lparr>logged := logged h @
               [Log WARNING (''Could not extract FASTQ from '' @ filename h @ '': '') (Some e)]\<rparr>)"
  have frame: "hdf5file ?h1 = hdf5file h" "group ?h1 = group h" "filename ?h1 = filename h"
    by (auto split: sum.splits option.splits)
  have body: "fastq_body F ?h1 t = fastq_body F h t" for t
    by (rule fastq_body_cong) (rule frame)+
  from "2.prems" have d: "distinct (map fst rest)" and n: "map_of rest sid = None"
    by (auto simp: map_of_eq_None_iff)
  have IH: "fastqs (extract_fastqs_loop F rest ?h1) s =
     (case map_of rest s of
        None \<Rightarrow> fastqs ?h1 s
      | Some t \<Rightarrow> (case fastq_body F ?h1 t of
                     Inr (Some fq) \<Rightarrow> Some fq
                   | Inr None \<Rightarrow> fastqs ?h1 s
                   | Inl e \<Rightarrow> fastqs ?h1 s))"
    by (rule "2.IH" [OF d])
  show ?case
  proof (cases "s = sid")
    case True
    with n IH show ?thesis
      by (auto split: sum.splits option.splits)
  next
    case False
    then have "fastqs ?h1 s = fastqs h s"
      by (auto split: sum.splits option.splits)
    with False IH body show ?thesis
      by (simp split: sum.splits option.splits)
  qed
qed

lemma extract_fastqs_loop_logged:
  "logged (extract_fastqs_loop F tbl h) = logged h @ fastq_warnings F h tbl"
proof (induction F tbl h rule: extract_fastqs_loop.induct)
  case (1 F h)
  then show ?case by simp
next
  case (2 F sid h5path rest h)
  let ?h1 = "(case fastq_body F h h5path of
          Inr None \<Rightarrow> h
        | Inr (Some fq) \<Rightarrow> h\<lparr>fastqs := (fastqs h)(sid \<mapsto> fq)\<rparr>
        | Inl e \<Rightarrow>
            h\<lparr>logged := logged h @
               [Log WARNING (''Could not extract FASTQ from '' @ filename h @ '': '') (Some e)]\<rparr>)"
  have frame: "hdf5file ?h1 = hdf5file h" "group ?h1 = group h" "filename ?h1 = filename h"
    by (auto split: sum.splits option.splits)
  have w: "fastq_warnings F ?h1 rest = fastq_warnings F h rest"
    by (rule fastq_warnings_cong) (rule frame)+
  have "logged (extract_fastqs_loop F rest ?h1) = logged ?h1 @ fastq_warnings F ?h1 rest"
    by (rule "2.IH")
  with w show ?case
    by (auto split: sum.splits option.splits)
qed

lemma fasta_body_cong:
  "hdf5file h' = hdf5file h \<Longrightarrow> group h' = group h \<Longrightarrow> filename h' = filename h \<Longrightarrow>
   fasta_body F h' t = fasta_body F h t"
  by (simp add: fasta_body_def get_hdf5file_def cong: option.case_cong if_cong)

lemma fasta_warnings_cong:
  "hdf5file h' = hdf5file h \<Longrightarrow> group h' = group h \<Longrightarrow> filename h' = filename h \<Longrightarrow>
   fasta_warnings F h' tbl = fasta_warnings F h tbl"
proof (induction tbl)
  case Nil
  then show ?case by simp
next
  case (Cons p tbl)
  obtain s t where p: "p = (s, t)" by (cases p)
  from Cons.prems have "fasta_body F h' t = fasta_body F h t"
    by (intro fasta_body_cong)
  with Cons p show ?case by (simp cong: sum.case_cong)
qed

lemma extract_fastas_loop_fastas:
  "distinct (map fst tbl) \<Longrightarrow>
   fastas (extract_fastas_loop F tbl h) s =
     (case map_of tbl s of
        None \<Rightarrow> fastas h s
      | Some t \<Rightarrow> (case fasta_body F h t of
                     Inr (Some fa) \<Rightarrow> Some fa
                   | Inr None \<Rightarrow> fastas h s
                   | Inl e \<Rightarrow> fastas h s))"
proof (induction F tbl h rule: extract_fastas_loop.induct)
  case (1 F h)
  then show ?case by simp
next
  case (2 F sid h5path rest h)
  let ?h1 = "(case fasta_body F h h5path of
          Inr None \<Rightarrow> h
        | Inr (Some fa) \<Rightarrow> h\<lparr>fastas := (fastas h)(sid \<mapsto> fa)\<rparr>
        | Inl e \<Rightarrow>
            h\<lparr>logged := logged h @
               [Log WARNING (''Could not extract FASTA from '' @ filename h @ '': '') (Some e)]\<rparr>)"
  have frame: "hdf5file ?h1 = hdf5file h" "group ?h1 = group h" "filename ?h1 = filename h"
    by (auto split: sum.splits option.splits)
  have body: "fasta_body F ?h1 t = fasta_body F h t" for t
    by (rule fasta_body_cong) (rule frame)+
  from "2.prems" have d: "distinct (map fst rest)" and n: "map_of rest sid = None"
    by (auto simp: map_of_eq_None_iff)
  have IH: "fastas (extract_fastas_loop F rest ?h1) s =
     (case map_of rest s of
        None \<Rightarrow> fastas ?h1 s
      | Some t \<Rightarrow> (case fasta_body F ?h1 t of
                     Inr (Some fa) \<Rightarrow> Some fa
                   | Inr None \<Rightarrow> fastas ?h1 s
                   | Inl e \<Rightarrow> fastas ?h1 s))"
    by (rule "2.IH" [OF d])
  show ?case
  proof (cases "s = sid")
    case True
    with n IH show ?thesis
      by (auto split: sum.splits option.splits)
  next
    case False
    then have "fastas ?h1 s = fastas h s"
      by (auto split: sum.splits option.splits)
    with False IH body show ?thesis
      by (simp split: sum.splits option.splits)
  qed
qed

lemma extract_fastas_loop_logged:
  "logged (extract_fastas_loop F tbl h) = logged h @ fasta_warnings F h tbl"
proof (induction F tbl h rule: extract_fastas_loop.induct)
  case (1 F h)
  then show ?case by simp
next
  case (2 F sid h5path rest h)
  let ?h1 = "(case fasta_body F h h5path of
          Inr None \<Rightarrow> h
        | Inr (Some fa) \<Rightarrow> h\<lparr>fastas := (fastas h)(sid \<mapsto> fa)\<rparr>
        | Inl e \<Rightarrow>
            h\<lparr>logged := logged h @
               [Log WARNING (''Could not extract FASTA from '' @ filename h @ '': '') (Some e)]\<rparr>)"
  have frame: "hdf5file ?h1 = hdf5file h" "group ?h1 = group h" "filename ?h1 = filename h"
    by (auto split: sum.splits option.splits)
  have w: "fasta_warnings F ?h1 rest = fasta_warnings F h rest"
    by (rule fasta_warnings_cong) (rule frame)+
  have "logged (extract_fastas_loop F rest ?h1) = logged ?h1 @ fasta_warnings F ?h1 rest"
    by (rule "2.IH")
  with w show ?case
    by (auto split: sum.splits option.splits)
qed

text \<open>
  Claim C5, as stated, fails: \<^verbatim>\<open>_extract_pre_basecalled_events\<close> has no handler. On the
  handle of an empty container, whose version is \<open>Prebasecalled\<close> and whose table has
  the pre-basecalled strand, the lookup of the strand's path raises \<^verbatim>\<open>KeyError\<close> and
  the exception reaches the caller.
\<close>

theorem pre_basecalled_failure_propagates:
  "Fast5File_init (one_file_world ''raw.fast5'' (H5Group [] [])) ''raw.fast5'' 0
     = Inr (opened_handle ''raw.fast5'' 0 (H5Group [] []) Prebasecalled)
   \<and> map_of (fastq_paths (version (opened_handle ''raw.fast5'' 0 (H5Group [] []) Prebasecalled)))
        Pre_basecalled = Some ''/Analyses/EventDetection_000/Reads/''
   \<and> extract_pre_basecalled_events (\<lambda>row. Inr row)
        (opened_handle ''raw.fast5'' 0 (H5Group [] []) Prebasecalled)
      = Inl (Exception KeyError)"
  by (simp add: Fast5File_init_def Fast5File_open_def h5py_File_def one_file_world_def
      guess_version_def probe_def get_hdf5file_def pad03d_0 h5_getitem_def
      opened_handle_def Let_def extract_pre_basecalled_events_def raise_exc_def
      dict_getitem_def)

text \<open>
  Claim C5, amended. \<^verbatim>\<open>_extract_fastqs_from_fast5\<close> and
  \<^verbatim>\<open>_extract_fastas_from_fast5\<close> return normally on every handle. Each strand of the
  table of the detected schema is attempted on its own: the record stored for a
  strand depends on the extraction of that strand only (stored when it succeeds with
  a non-empty table, left as it was otherwise), and the log grows by exactly one
  warning, naming the file and carrying the exception, for each strand whose
  extraction raised, in table order.
\<close>

theorem strand_failures_are_local:
  "(\<exists>h'. extract_fastqs_from_fast5 F h = Inr h'
       \<and> (\<forall>s. fastqs h' s =
              (case map_of (fastq_paths (version h)) s of
                 None \<Rightarrow> fastqs h s
               | Some t \<Rightarrow> (case fastq_body F h t of
                              Inr (Some fq) \<Rightarrow> Some fq
                            | Inr None \<Rightarrow> fastqs h s
                            | Inl e \<Rightarrow> fastqs h s)))
       \<and> logged h' = logged h @ fastq_warnings F h (fastq_paths (version h)))
   \<and> (\<exists>h'. extract_fastas_from_fast5 G h = Inr h'
       \<and> (\<forall>s. fastas h' s =
              (case map_of (fastq_paths (version h)) s of
                 None \<Rightarrow> fastas h s
               | Some t \<Rightarrow> (case fasta_body G h t of
                              Inr (Some fa) \<Rightarrow> Some fa
                            | Inr None \<Rightarrow> fastas h s
                            | Inl e \<Rightarrow> fastas h s)))
       \<and> logged h' = logged h @ fasta_warnings G h (fastq_paths (version h)))"
  by (simp add: extract_fastqs_from_fast5_def extract_fastas_from_fast5_def
      extract_fastqs_loop_fastqs extract_fastas_loop_fastas
      extract_fastqs_loop_logged extract_fastas_loop_logged fastq_paths_distinct)

text \<open>On the example: the template is stored, the malformed 2-D table, the missing
  complement and the missing event group are one warning each.\<close>

lemma extract_fastqs_example:
  "\<exists>h'. extract_fastqs_from_fast5 example_Fastq (opened_handle ''r.fast5'' 0 template_only Classic) = Inr h'
     \<and> fastqs h' Template = Some \<lparr>rec_name = ''@read1 r.fast5'', rec_text = ''@read1''\<rparr>
     \<and> fastqs h' Complement = None \<and> fastqs h' Twodirections = None
     \<and> fastqs h' Pre_basecalled = None
     \<and> logged h' =
         [Log WARNING ''Could not extract FASTQ from r.fast5: '' (Some KeyError),
          Log WARNING ''Could not extract FASTQ from r.fast5: '' (Some TypeError),
          Log WARNING ''Could not extract FASTQ from r.fast5: '' (Some KeyError)]"
  by (simp add: extract_fastqs_from_fast5_def fastq_body_def get_hdf5file_def
      opened_handle_def pad03d_0 h5_getitem_def template_only_def example_Fastq_def)

subsection \<open>Metadata\<close>

lemma load_metadata_frame [simp]:
  "hdf5file (load_metadata h) = hdf5file h"
  "filename (load_metadata h) = filename h"
  "group (load_metadata h) = group h"
  "version (load_metadata h) = version h"
  by (auto simp: load_metadata_def get_metadata_def split: sum.splits)

lemma load_metadata_loaded [simp]: "have_metadata (load_metadata h) = True"
  by (auto simp: load_metadata_def)

lemma load_metadata_idem [simp]: "load_metadata (load_metadata h) = load_metadata h"
  by (subst (1) load_metadata_def) simp








subsection \<open>The raw read block\<close>






lemma get_sample_frequency_loaded [simp]:
  "get_sample_frequency (load_metadata h) = get_sample_frequency h"
  by (simp add: get_sample_frequency_def)

lemma snd_get_sample_frequency [simp]: "snd (get_sample_frequency h) = load_metadata h"
  by (simp add: get_sample_frequency_def Let_def)

lemma hdf_internal_error_msg_names_file:
  "\<exists>pre post. hdf_internal_error_msg fname reason = pre @ fname @ post"
  unfolding hdf_internal_error_msg_def by (metis append.assoc)




subsection \<open>End time\<close>

lemma same_file_refl [simp]: "same_file h h"
  by (simp add: same_file_def)

lemma same_file_load_metadata [simp]: "same_file (load_metadata h) h"
  by (simp add: same_file_def)






lemma get_exp_start_time_loaded [simp]:
  "get_exp_start_time iso_epoch (load_metadata h) = get_exp_start_time iso_epoch h"
  by (simp add: get_exp_start_time_def)

lemma get_start_time_loaded [simp]:
  "get_start_time iso_epoch (load_metadata h) = get_start_time iso_epoch h"
  by (simp add: get_start_time_def)











subsection \<open>The archive iterator\<close>

lemma TarballFileIterator_next_raises:
  "TarballFileIterator_next it w = (Inl TypeError, it, w)"
  by (simp add: builtin_next_TarFile_def)

declare TarballFileIterator_next.simps [simp del]

lemma Fast5FileSet_init_archive:
  "Fast5FileSet_init (PathStr ''reads.tar'') 0 example_world = (Inr archive_set, staged_world)"
  by (simp add: Fast5FileSet_init_def Let_def isdir_def PORETOOLS_TMPDIR_def example_world_def
      is_tarfile_def mkdir_tmpdir_def tarfile_open_def archive_set_def staged_world_def)

lemma example_archive_matching:
  "map (\<lambda>m. path_join PORETOOLS_TMPDIR (fst m))
       (filter (\<lambda>m. fast5_filename_filter (fst m)) example_archive)
     = [''.poretools_tmp/a.fast5'', ''.poretools_tmp/b.fast5'']"
  by (simp add: example_archive_def fast5_filename_filter_def basename_def endswith_def
      startswith_def path_join_def PORETOOLS_TMPDIR_def)

text \<open>
  Claim C7 on the archive of its example. The constructor builds the enumerator of
  the archive; the entries that pass the filter are \<^verbatim>\<open>a.fast5\<close> and \<^verbatim>\<open>b.fast5\<close>, which
  the claim expects staged in that order; the first request to the archive iterator
  raises \<^verbatim>\<open>TypeError\<close> and stages nothing.
\<close>

theorem archive_iterator_first_request:
  "Fast5FileSet_init (PathStr ''reads.tar'') 0 example_world = (Inr archive_set, staged_world)
   \<and> map (\<lambda>m. path_join PORETOOLS_TMPDIR (fst m))
         (filter (\<lambda>m. fast5_filename_filter (fst m)) example_archive)
       = [''.poretools_tmp/a.fast5'', ''.poretools_tmp/b.fast5'']
   \<and> path_iter_next (files archive_set) staged_world
       = (Inl TypeError, files archive_set, staged_world)"
  using Fast5FileSet_init_archive example_archive_matching
  by (simp add: archive_set_def TarballFileIterator_next_raises)

subsection \<open>Cleaning up the staging directory\<close>

lemma Fast5FileSet_next_archive:
  assumes "set_type s = Some FAST5SET_TARBALL" and "files s = TarIter it"
  shows "Fast5FileSet_next s w =
           (case tmpdir w of
              Some staged \<Rightarrow> (Inl (Exception StopIteration), s, w\<lparr>tmpdir := None\<rparr>)
            | None \<Rightarrow> (Inl (Exception FileNotFoundError), s, w))"
proof -
  have "s\<lparr>files := TarIter it\<rparr> = s" using assms(2) by simp
  then show ?thesis
    using assms
    by (simp add: Fast5FileSet_next_def TarballFileIterator_next_raises raise_exc_def
        rmtree_tmpdir_def split: option.splits)
qed

text \<open>
  Claim C8 on the enumerator of the example archive. The first call of \<^verbatim>\<open>__next__\<close>
  removes the staging directory and raises \<^verbatim>\<open>StopIteration\<close>; a second call, with the
  directory now absent, raises \<^verbatim>\<open>FileNotFoundError\<close> from the handler instead of
  \<^verbatim>\<open>StopIteration\<close>.
\<close>

theorem next_after_cleanup_raises:
  "Fast5FileSet_next archive_set staged_world
     = (Inl (Exception StopIteration), archive_set, example_world)
   \<and> tmpdir example_world = None
   \<and> Fast5FileSet_next archive_set example_world
     = (Inl (Exception FileNotFoundError), archive_set, example_world)"
proof -
  have t: "set_type archive_set = Some FAST5SET_TARBALL"
    and f: "files archive_set = TarIter \<lparr>tb_tarball = ''reads.tar'',
                       tb_tarfile = \<lparr>tar_members = example_archive, tar_pos = 0\<rparr>\<rparr>"
    by (simp_all add: archive_set_def)
  have w: "staged_world\<lparr>tmpdir := None\<rparr> = example_world"
    by (simp add: staged_world_def example_world_def)
  show ?thesis
    using w
    by (simp add: Fast5FileSet_next_archive [OF t f] staged_world_def)
       (simp add: example_world_def)
qed

subsection \<open>The number of files\<close>


lemma rmtree_tmpdir_tarballs: "rmtree_tmpdir w = Inr w1 \<Longrightarrow> tarballs w1 = tarballs w"
  by (auto simp: rmtree_tmpdir_def split: option.splits)

lemma mkdir_tmpdir_tarballs: "mkdir_tmpdir w = Inr w1 \<Longrightarrow> tarballs w1 = tarballs w"
  by (auto simp: mkdir_tmpdir_def split: option.splits)










end
